theory Spec2Isabelle
  imports Main
begin

section \<open>The API client service of the PR summarizer frontend\<close>

text \<open>
  The development follows the TypeScript module of the API client (types, error classes,
  configuration, the \<open>APIClient\<close> class) and the input form component. JavaScript
  numbers that the code uses as integers are \<open>int\<close>; the attempt counter
  \<open>retryCount\<close>, which starts at 0 and only grows by one, is \<open>nat\<close>.
  Strings are lists of 8-bit characters, each read as one code unit in the range
  U+0000 .. U+00FF. Exceptions are values: a function that may throw returns a sum whose
  left injection carries what is thrown.
\<close>

subsection \<open>Types and interfaces\<close>

record SummaryRequest =
  githubPrUrl :: string
  jiraTicketId :: "string option"

text \<open>One entry of \<open>ValidationError['errors']\<close>: field, message, code, value.\<close>

datatype field_error = FieldError string string string "string option"

type_synonym details_obj = "(string \<times> string) list"

text \<open>
  The interfaces \<open>APIError\<close> and \<open>ValidationError\<close> (the latter extends the former by
  \<open>errors\<close>): an optional member is an \<open>option\<close>, so \<open>'errors' in errorData\<close> is
  \<open>errors errorData \<noteq> None\<close>. The member \<open>method\<close> is named \<open>request_method\<close> here.
\<close>

record APIError =
  error :: string
  message :: string
  timestamp :: string
  correlation_id :: "string option"
  path :: "string option"
  request_method :: "string option"
  details :: "details_obj option"
  errors :: "field_error list option"

subsection \<open>Error classes\<close>

text \<open>
  The class \<open>APIClientError\<close> and its three subclasses. The base constructor takes
  message, statusCode, errorCode, correlationId and details; \<open>ValidationAPIError\<close> takes
  message, validationErrors and correlationId; \<open>NetworkError\<close> takes a message and the
  original error (kept by its message); \<open>TimeoutError\<close> takes a message.
\<close>

datatype APIClientError =
    APIClientError string "int option" "string option" "string option" "details_obj option"
  | ValidationAPIError string "field_error list" "string option"
  | NetworkError string string
  | TimeoutError string

fun statusCode :: "APIClientError \<Rightarrow> int option" where
  "statusCode (APIClientError m s c cid d) = s"
| "statusCode (ValidationAPIError m es cid) = Some 400"
| "statusCode (NetworkError m orig) = Some 0"
| "statusCode (TimeoutError m) = Some 0"

fun errorCode :: "APIClientError \<Rightarrow> string option" where
  "errorCode (APIClientError m s c cid d) = c"
| "errorCode (ValidationAPIError m es cid) = Some ''VALIDATION_ERROR''"
| "errorCode (NetworkError m orig) = Some ''NETWORK_ERROR''"
| "errorCode (TimeoutError m) = Some ''TIMEOUT_ERROR''"

fun error_message :: "APIClientError \<Rightarrow> string" where
  "error_message (APIClientError m s c cid d) = m"
| "error_message (ValidationAPIError m es cid) = m"
| "error_message (NetworkError m orig) = m"
| "error_message (TimeoutError m) = m"

text \<open>
  Everything that the code can find in a \<open>catch\<close>: an \<open>APIClientError\<close> (or subclass), a
  \<open>DOMException\<close> with its name and message (the Fetch API rejects an aborted fetch
  with the name \<open>AbortError\<close>), a \<open>TypeError\<close> or a \<open>SyntaxError\<close> with its message.
\<close>

datatype thrown =
    Api APIClientError
  | DOMException string string
  | TypeError string
  | SyntaxError string

subsection \<open>Configuration\<close>

text \<open>\<open>Required<APIClientConfig>\<close>: every member present.\<close>

record APIClientConfig =
  baseURL :: string
  timeout :: int
  retries :: int
  retryDelay :: int
  retryBackoff :: bool
  enableLogging :: bool

text \<open>\<open>Partial<APIClientConfig>\<close>: a member that the object literal does not name is \<open>None\<close>.\<close>

record PartialConfig =
  p_baseURL :: "string option"
  p_timeout :: "int option"
  p_retries :: "int option"
  p_retryDelay :: "int option"
  p_retryBackoff :: "bool option"
  p_enableLogging :: "bool option"

text \<open>The two variables of \<open>process.env\<close> that the defaults read.\<close>

record process_env =
  REACT_APP_API_BASE_URL :: "string option"
  NODE_ENV :: "string option"

definition DEFAULT_CONFIG :: "process_env \<Rightarrow> APIClientConfig" where
  "DEFAULT_CONFIG env =
     \<lparr> baseURL = (case REACT_APP_API_BASE_URL env of
                     Some u \<Rightarrow> if u = [] then ''http://localhost:8000'' else u
                   | None \<Rightarrow> ''http://localhost:8000''),
       timeout = 30000,
       retries = 3,
       retryDelay = 1000,
       retryBackoff = True,
       enableLogging = (NODE_ENV env = Some ''development'') \<rparr>"

text \<open>The object spread \<open>{ ...base, ...config }\<close>.\<close>

definition spread :: "APIClientConfig \<Rightarrow> PartialConfig \<Rightarrow> APIClientConfig" where
  "spread base p =
     \<lparr> baseURL = (case p_baseURL p of Some v \<Rightarrow> v | None \<Rightarrow> baseURL base),
       timeout = (case p_timeout p of Some v \<Rightarrow> v | None \<Rightarrow> timeout base),
       retries = (case p_retries p of Some v \<Rightarrow> v | None \<Rightarrow> retries base),
       retryDelay = (case p_retryDelay p of Some v \<Rightarrow> v | None \<Rightarrow> retryDelay base),
       retryBackoff = (case p_retryBackoff p of Some v \<Rightarrow> v | None \<Rightarrow> retryBackoff base),
       enableLogging = (case p_enableLogging p of Some v \<Rightarrow> v | None \<Rightarrow> enableLogging base) \<rparr>"

subsection \<open>Utility functions\<close>

text \<open>
  \<open>!error.statusCode\<close> holds when the status code is undefined or 0; otherwise the error
  is retryable when the code is at least 500 or is 429.
\<close>

definition isRetryableError :: "APIClientError \<Rightarrow> bool" where
  "isRetryableError e =
     (case statusCode e of
        None \<Rightarrow> True
      | Some s \<Rightarrow> if s = 0 then True else (s \<ge> 500 \<or> s = 429))"

text \<open>
  \<open>log\<close>: what a call writes to the console, each \<open>console.log\<close> kept by its first
  argument. The test reads the constant \<open>DEFAULT_CONFIG\<close>, not the configuration of a
  client.
\<close>

definition log :: "process_env \<Rightarrow> string \<Rightarrow> string list" where
  "log env msg = (if enableLogging (DEFAULT_CONFIG env) then [''[APIClient] '' @ msg] else [])"

text \<open>\<open>String.prototype.includes\<close>.\<close>

fun startsWith :: "string \<Rightarrow> string \<Rightarrow> bool" where
  "startsWith s [] = True"
| "startsWith [] (d # ds) = False"
| "startsWith (c # cs) (d # ds) = (c = d \<and> startsWith cs ds)"

fun string_includes :: "string \<Rightarrow> string \<Rightarrow> bool" where
  "string_includes [] sub = (sub = [])"
| "string_includes (c # cs) sub = (startsWith (c # cs) sub \<or> string_includes cs sub)"

text \<open>Decimal notation of a status code, as a template literal prints it.\<close>

fun digits :: "nat \<Rightarrow> string" where
  "digits n = (if n < 10 then [char_of (48 + n)] else digits (n div 10) @ [char_of (48 + n mod 10)])"

definition number_toString :: "int \<Rightarrow> string" where
  "number_toString i = (if i < 0 then CHR ''-'' # digits (nat (- i)) else digits (nat i))"

subsection \<open>The client and its abort controllers\<close>

text \<open>
  The object state of \<open>APIClient\<close>: \<open>config\<close> and \<open>abortController\<close> (\<open>None\<close> is
  \<open>null\<close>). An \<open>AbortController\<close> is an object on the heap; \<open>controllers\<close> is the store
  of those created so far, one \<open>aborted\<close> flag each, and a controller is named by its
  index there.
\<close>

record APIClient =
  config :: APIClientConfig
  abortController :: "nat option"
  controllers :: "bool list"

definition new_APIClient :: "process_env \<Rightarrow> PartialConfig \<Rightarrow> APIClient" where
  "new_APIClient env p =
     \<lparr> config = spread (DEFAULT_CONFIG env) p, abortController = None, controllers = [] \<rparr>"

definition updateConfig :: "PartialConfig \<Rightarrow> APIClient \<Rightarrow> APIClient" where
  "updateConfig p c = c\<lparr> config := spread (config c) p \<rparr>"

definition cancelRequests :: "APIClient \<Rightarrow> APIClient" where
  "cancelRequests c =
     (case abortController c of
        Some a \<Rightarrow> c\<lparr> controllers := (controllers c)[a := True], abortController := None \<rparr>
      | None \<Rightarrow> c)"

definition aborted :: "APIClient \<Rightarrow> nat \<Rightarrow> bool" where
  "aborted c a = (a < length (controllers c) \<and> controllers c ! a)"

subsection \<open>One attempt\<close>

text \<open>
  What \<open>response.json()\<close> resolves to. The code reads the same parsed value at the type
  \<open>T\<close> on the success path and as \<open>errorData\<close> on the error path, without a check; the
  two readings are the two members. On the error path the value is \<open>null\<close>, a primitive
  (a boolean, a number or a string, kept by its printed form), or an object, whose members
  are read at the declared type \<open>APIError | ValidationError\<close>.
\<close>

datatype error_body = JSON_null | JSON_primitive string | JSON_object APIError

record 'a json_value =
  as_data :: 'a
  as_error :: error_body

text \<open>
  A \<open>Response\<close>: the status line and the outcome of \<open>response.json()\<close> (\<open>Inl\<close> is a
  rejection). \<open>response.ok\<close> is the status being in the range 200 to 299.
\<close>

record 'a Response =
  status :: int
  statusText :: string
  json :: "thrown + 'a json_value"

definition ok :: "'a Response \<Rightarrow> bool" where
  "ok r = (200 \<le> status r \<and> status r \<le> 299)"

text \<open>
  What \<open>Promise.race([fetch(url, requestOptions), timeoutPromise])\<close> settles with: the
  response of the fetch, the rejection of the fetch, or the timer's \<open>TimeoutError\<close>.
\<close>

datatype 'a fetch_outcome =
    Responded "'a Response"
  | FetchRejected thrown
  | TimerFired

text \<open>What the environment does during one attempt: the race's outcome and the clock.\<close>

record 'a attempt_env =
  outcome :: "'a fetch_outcome"
  now :: string

text \<open>
  The Fetch API: a fetch whose signal is aborted before it settles rejects with a
  \<open>DOMException\<close> named \<open>AbortError\<close>.
\<close>

definition fetch_settles :: "APIClient \<Rightarrow> nat \<Rightarrow> 'a fetch_outcome \<Rightarrow> 'a fetch_outcome" where
  "fetch_settles c signal out =
     (if aborted c signal
      then FetchRejected (DOMException ''AbortError'' ''The operation was aborted.'')
      else out)"

definition parseErrorResponse :: "string \<Rightarrow> 'a Response \<Rightarrow> error_body" where
  "parseErrorResponse t response =
     (case json response of
        Inr errorData \<Rightarrow> as_error errorData
      | Inl _ \<Rightarrow>
          JSON_object
            \<lparr> error = ''HTTP Error'',
              message = ''HTTP '' @ number_toString (status response) @ '' - '' @ statusText response,
              timestamp = t,
              correlation_id = None, path = None, request_method = None, details = None,
              errors = None \<rparr>)"

text \<open>
  \<open>createAPIError\<close> on whatever was parsed. The operator \<open>in\<close> throws a \<open>TypeError\<close> when
  its right operand is not an object, and so does reading a member of \<open>null\<close>; a member
  of a primitive is \<open>undefined\<close>, and an \<open>Error\<close> built with an undefined message has the
  empty message. The messages of the two \<open>TypeError\<close>s are those of the V8 engine.
\<close>

definition in_operator_error :: "string \<Rightarrow> thrown" where
  "in_operator_error printed =
     TypeError (''Cannot use '' @ [CHR 0x27] @ ''in'' @ [CHR 0x27] @ '' operator to search for ''
                @ [CHR 0x27] @ ''errors'' @ [CHR 0x27] @ '' in '' @ printed)"

definition null_member_error :: thrown where
  "null_member_error =
     TypeError (''Cannot read properties of null (reading '' @ [CHR 0x27] @ ''message''
                @ [CHR 0x27] @ '')'')"

definition createAPIError :: "int \<Rightarrow> error_body \<Rightarrow> thrown + APIClientError" where
  "createAPIError code errorData =
     (case errorData of
        JSON_null \<Rightarrow>
          if code = 400 then Inl (in_operator_error ''null'') else Inl null_member_error
      | JSON_primitive printed \<Rightarrow>
          if code = 400 then Inl (in_operator_error printed)
          else Inr (APIClientError [] (Some code) None None None)
      | JSON_object body \<Rightarrow>
          if code = 400 \<and> errors body \<noteq> None
          then Inr (ValidationAPIError (message body) (the (errors body)) (correlation_id body))
          else Inr (APIClientError (message body) (Some code) (Some (error body))
                      (correlation_id body) (details body)))"

text \<open>
  The \<open>try\<close> block of \<open>request\<close>, given what the race settles with and the clock reading
  of \<open>new Date().toISOString()\<close>: the parsed data, or what is thrown.
\<close>

definition try_block :: "string \<Rightarrow> 'a fetch_outcome \<Rightarrow> thrown + 'a" where
  "try_block t out =
     (case out of
        TimerFired \<Rightarrow> Inl (Api (TimeoutError ''Request timed out''))
      | FetchRejected e \<Rightarrow> Inl e
      | Responded response \<Rightarrow>
          if \<not> ok response
          then (case createAPIError (status response) (parseErrorResponse t response) of
                  Inr e \<Rightarrow> Inl (Api e)
                | Inl x \<Rightarrow> Inl x)
          else (case json response of
                  Inl e \<Rightarrow> Inl e
                | Inr data \<Rightarrow> Inr (as_data data)))"

text \<open>
  The \<open>catch\<close> block of \<open>request\<close>: it throws, or it sleeps for a delay and calls
  \<open>request\<close> again with \<open>retryCount + 1\<close>.
\<close>

datatype catch_action = Throw thrown | Retry int

definition is_AbortError :: "thrown \<Rightarrow> bool" where
  "is_AbortError e = (case e of DOMException n m \<Rightarrow> n = ''AbortError'' | _ \<Rightarrow> False)"

definition cancelled_error :: APIClientError where
  "cancelled_error = APIClientError ''Request was cancelled'' (Some 0) (Some ''CANCELLED'') None None"

definition backoff_delay :: "APIClientConfig \<Rightarrow> nat \<Rightarrow> int" where
  "backoff_delay cfg retryCount =
     (if retryBackoff cfg then retryDelay cfg * 2 ^ retryCount else retryDelay cfg)"

definition catch_block :: "APIClientConfig \<Rightarrow> nat \<Rightarrow> thrown \<Rightarrow> catch_action" where
  "catch_block cfg retryCount err =
     (if is_AbortError err
      then Throw (Api cancelled_error)
      else case err of
        TypeError m \<Rightarrow>
          if string_includes m ''fetch''
          then Throw (Api (NetworkError ''Network error - please check your connection'' m))
          else Throw err
      | Api e \<Rightarrow>
          if int retryCount < retries cfg \<and> isRetryableError e
          then Retry (backoff_delay cfg retryCount)
          else Throw err
      | _ \<Rightarrow> Throw err)"

text \<open>
  How one attempt ends, for the client state \<open>c\<close> at the time the race settles, the
  signal the attempt was started with, and its retry count: it returns the data, throws, or
  sleeps before the next attempt.
\<close>

datatype 'a settled = Return 'a | Throws thrown | Sleep int

definition attempt_settles :: "APIClient \<Rightarrow> nat \<Rightarrow> nat \<Rightarrow> 'a attempt_env \<Rightarrow> 'a settled" where
  "attempt_settles c signal retryCount e =
     (case try_block (now e) (fetch_settles c signal (outcome e)) of
        Inr data \<Rightarrow> Return data
      | Inl err \<Rightarrow>
          (case catch_block (config c) retryCount err of
             Throw x \<Rightarrow> Throws x
           | Retry delay \<Rightarrow> Sleep delay))"

subsection \<open>The request method\<close>

text \<open>The members of \<open>RequestInit\<close> that the public methods set.\<close>

record RequestInit =
  http_method :: "string option"
  body :: "string option"

text \<open>
  The synchronous start of \<open>request\<close>: a new \<open>AbortController\<close> is created and stored
  in the client; its signal goes into the fetch options.
\<close>

definition request_begin :: "APIClient \<Rightarrow> nat \<times> APIClient" where
  "request_begin c =
     (length (controllers c),
      c\<lparr> controllers := controllers c @ [False],
         abortController := Some (length (controllers c)) \<rparr>)"

text \<open>
  A run of one logical call: its result, the fetch calls made (URL, options, signal), the
  delays slept between them, and the client afterwards. The environment \<open>env\<close> gives, for
  the attempt made with each retry count, what the race settles with; nothing else runs
  between the start of an attempt and its end.
\<close>

record 'a run =
  result :: "thrown + 'a"
  calls :: "(string \<times> RequestInit \<times> nat) list"
  delays :: "int list"
  client :: APIClient

definition attempts :: "'a run \<Rightarrow> nat" where
  "attempts r = length (calls r)"

function request ::
  "APIClient \<Rightarrow> string \<Rightarrow> RequestInit \<Rightarrow> (nat \<Rightarrow> 'a attempt_env) \<Rightarrow> nat \<Rightarrow> 'a run" where
  "request c endpoint options env retryCount =
     (let url = baseURL (config c) @ endpoint;
          signal = fst (request_begin c);
          c1 = snd (request_begin c);
          call = (url, options, signal)
      in case attempt_settles c1 signal retryCount (env retryCount) of
           Return data \<Rightarrow> \<lparr> result = Inr data, calls = [call], delays = [], client = c1 \<rparr>
         | Throws e \<Rightarrow> \<lparr> result = Inl e, calls = [call], delays = [], client = c1 \<rparr>
         | Sleep delay \<Rightarrow>
             (let r = request c1 endpoint options env (retryCount + 1)
              in r\<lparr> calls := call # calls r, delays := delay # delays r \<rparr>))"
  by pat_completeness auto
termination
proof (relation "measure (\<lambda>(c, endpoint, options, env, n). nat (retries (config c)) - n)")
  show "wf (measure (\<lambda>(c, endpoint, options, env, n). nat (retries (config c)) - n))"
    by simp
next
  fix c :: APIClient and endpoint :: string and options :: RequestInit
    and env :: "nat \<Rightarrow> 'a attempt_env" and retryCount :: nat
    and x xa xb xc and x3 :: int
  assume c1: "xb = snd (request_begin c)"
    and sleep: "attempt_settles xb xa retryCount (env retryCount) = Sleep x3"
  have "config xb = config c"
    using c1 by (simp add: request_begin_def)
  moreover have "int retryCount < retries (config xb)"
    using sleep
    by (auto simp: attempt_settles_def catch_block_def
        split: sum.splits catch_action.splits if_splits thrown.splits)
  ultimately show "((xb, endpoint, options, env, retryCount + 1), c, endpoint, options, env, retryCount)
      \<in> measure (\<lambda>(c, endpoint, options, env, n). nat (retries (config c)) - n)"
    by simp
qed

text \<open>
  The console line that \<open>request\<close> writes when an attempt starts, with the method of the
  options or \<open>GET\<close> and the endpoint, and these lines for all the attempts of a run.
\<close>

definition method_or_GET :: "RequestInit \<Rightarrow> string" where
  "method_or_GET options =
     (case http_method options of
        Some m \<Rightarrow> if m = [] then ''GET'' else m
      | None \<Rightarrow> ''GET'')"

definition attempt_log :: "process_env \<Rightarrow> string \<Rightarrow> RequestInit \<Rightarrow> string list" where
  "attempt_log env endpoint options = log env (method_or_GET options @ '' '' @ endpoint)"

definition request_log :: "process_env \<Rightarrow> string \<Rightarrow> RequestInit \<Rightarrow> 'a run \<Rightarrow> string list" where
  "request_log env endpoint options r =
     concat (map (\<lambda>call. attempt_log env endpoint options) (calls r))"

subsection \<open>Public API methods\<close>

text \<open>\<open>String.prototype.trim\<close>: the white space among the code units below 256.\<close>

definition isWhiteSpace :: "char \<Rightarrow> bool" where
  "isWhiteSpace c =
     (c \<in> set [CHR 0x09, CHR 0x0A, CHR 0x0B, CHR 0x0C, CHR 0x0D, CHR 0x20, CHR 0xA0])"

definition trim :: "string \<Rightarrow> string" where
  "trim s = rev (dropWhile isWhiteSpace (rev (dropWhile isWhiteSpace s)))"

text \<open>The object literal \<open>cleanRequest\<close>; a member that is \<open>undefined\<close> is \<open>None\<close>.\<close>

record cleanRequest =
  github_pr_url :: string
  jira_ticket_id :: "string option"

definition clean :: "SummaryRequest \<Rightarrow> cleanRequest" where
  "clean req =
     \<lparr> github_pr_url = trim (githubPrUrl req),
       jira_ticket_id =
         (case jiraTicketId req of
            None \<Rightarrow> None
          | Some t \<Rightarrow> if trim t = [] then None else Some (trim t)) \<rparr>"

text \<open>
  \<open>JSON.stringify\<close> on that object: a string is quoted with the escapes of the JSON
  grammar, and a member that is \<open>undefined\<close> is left out.
\<close>

definition hex_digit :: "nat \<Rightarrow> char" where
  "hex_digit n = (if n < 10 then char_of (48 + n) else char_of (87 + n))"

definition escape_char :: "char \<Rightarrow> string" where
  "escape_char c =
     (if c = CHR 0x22 then [CHR 0x5C, CHR 0x22]
      else if c = CHR 0x5C then [CHR 0x5C, CHR 0x5C]
      else if c = CHR 0x08 then [CHR 0x5C, CHR ''b'']
      else if c = CHR 0x0C then [CHR 0x5C, CHR ''f'']
      else if c = CHR 0x0A then [CHR 0x5C, CHR ''n'']
      else if c = CHR 0x0D then [CHR 0x5C, CHR ''r'']
      else if c = CHR 0x09 then [CHR 0x5C, CHR ''t'']
      else if (of_char c :: nat) < 32
        then [CHR 0x5C, CHR ''u'', CHR ''0'', CHR ''0'',
              hex_digit ((of_char c :: nat) div 16), hex_digit ((of_char c :: nat) mod 16)]
      else [c])"

definition JSON_quote :: "string \<Rightarrow> string" where
  "JSON_quote s = [CHR 0x22] @ concat (map escape_char s) @ [CHR 0x22]"

definition JSON_stringify :: "cleanRequest \<Rightarrow> string" where
  "JSON_stringify r =
     ''{'' @ JSON_quote ''github_pr_url'' @ '':'' @ JSON_quote (github_pr_url r)
       @ (case jira_ticket_id r of
            None \<Rightarrow> []
          | Some t \<Rightarrow> '','' @ JSON_quote ''jira_ticket_id'' @ '':'' @ JSON_quote t)
       @ ''}''"

definition generateSummary ::
  "APIClient \<Rightarrow> SummaryRequest \<Rightarrow> (nat \<Rightarrow> 'a attempt_env) \<Rightarrow> 'a run" where
  "generateSummary c req env =
     request c ''/api/v1/summary/generate''
       \<lparr> http_method = Some ''POST'', body = Some (JSON_stringify (clean req)) \<rparr> env 0"

subsection \<open>The input form\<close>

text \<open>
  The two patterns are sequences of literal text and quantified character classes,
  anchored at both ends. \<open>regex_test\<close> is the backtracking match of such a sequence
  against the whole string: a class with bounds takes any permitted number of characters.
\<close>

datatype regex_item = Lit string | Cls "char \<Rightarrow> bool" nat "nat option"

fun regex_test :: "regex_item list \<Rightarrow> string \<Rightarrow> bool" where
  "regex_test [] s = (s = [])"
| "regex_test (Lit l # items) s = (startsWith s l \<and> regex_test items (drop (length l) s))"
| "regex_test (Cls p lo hi # items) s =
     list_ex (\<lambda>k. list_all p (take k s) \<and> regex_test items (drop k s))
       [lo ..< Suc (case hi of None \<Rightarrow> length s | Some h \<Rightarrow> min h (length s))]"

definition isDigit :: "char \<Rightarrow> bool" where
  "isDigit c = (48 \<le> (of_char c :: nat) \<and> (of_char c :: nat) \<le> 57)"

text \<open>\<open>[A-Z]\<close> under the flag \<open>i\<close>: the letters of both cases.\<close>

definition isLetter_i :: "char \<Rightarrow> bool" where
  "isLetter_i c =
     ((65 \<le> (of_char c :: nat) \<and> (of_char c :: nat) \<le> 90)
      \<or> (97 \<le> (of_char c :: nat) \<and> (of_char c :: nat) \<le> 122))"

definition notSlash :: "char \<Rightarrow> bool" where
  "notSlash c = (c \<noteq> CHR ''/'')"

definition GITHUB_PR_URL_PATTERN :: "regex_item list" where
  "GITHUB_PR_URL_PATTERN =
     [Lit ''https://github.com/'', Cls notSlash 1 None, Lit ''/'', Cls notSlash 1 None,
      Lit ''/pull/'', Cls isDigit 1 None]"

definition JIRA_TICKET_PATTERN :: "regex_item list" where
  "JIRA_TICKET_PATTERN = [Cls isLetter_i 1 (Some 10), Lit ''-'', Cls isDigit 1 None]"

datatype field_name = GithubPrUrl | JiraTicketId

fun validateField :: "field_name \<Rightarrow> string \<Rightarrow> string option" where
  "validateField GithubPrUrl v =
     (if trim v = [] then Some ''GitHub PR URL is required''
      else if \<not> regex_test GITHUB_PR_URL_PATTERN (trim v)
        then Some ''Please enter a valid GitHub PR URL (e.g., https://github.com/owner/repo/pull/123)''
      else None)"
| "validateField JiraTicketId v =
     (if trim v \<noteq> [] \<and> \<not> regex_test JIRA_TICKET_PATTERN (trim v)
      then Some ''Please enter a valid Jira ticket ID (e.g., PROJ-123)''
      else None)"

record ValidationErrors =
  e_githubPrUrl :: "string option"
  e_jiraTicketId :: "string option"
  e_general :: "string option"

text \<open>\<open>FormData\<close> has the members of \<open>SummaryRequest\<close>.\<close>

definition validateForm :: "SummaryRequest \<Rightarrow> ValidationErrors" where
  "validateForm d =
     \<lparr> e_githubPrUrl = validateField GithubPrUrl (githubPrUrl d),
       e_jiraTicketId =
         validateField JiraTicketId (case jiraTicketId d of Some t \<Rightarrow> t | None \<Rightarrow> []),
       e_general = None \<rparr>"

definition error_keys :: "ValidationErrors \<Rightarrow> nat" where
  "error_keys e =
     length (filter (\<lambda>x. x \<noteq> None) [e_githubPrUrl e, e_jiraTicketId e, e_general e])"

text \<open>The state of the form component that \<open>handleSubmit\<close> reads.\<close>

record InputForm =
  formData :: SummaryRequest
  isSubmitting :: bool
  loading :: bool
  disabled :: bool

text \<open>
  \<open>handleSubmit\<close>: the clean data that \<open>onSubmit\<close> is called with, or \<open>None\<close> when the
  handler returns before calling it.
\<close>

definition handleSubmit :: "InputForm \<Rightarrow> SummaryRequest option" where
  "handleSubmit f =
     (if isSubmitting f \<or> loading f \<or> disabled f then None
      else if error_keys (validateForm (formData f)) > 0 then None
      else Some \<lparr> githubPrUrl = trim (githubPrUrl (formData f)),
                  jiraTicketId =
                    (case jiraTicketId (formData f) of
                       None \<Rightarrow> None
                     | Some t \<Rightarrow> if trim t = [] then None else Some (trim t)) \<rparr>)"

text \<open>
  A submission of the form in the application: \<open>onSubmit\<close> is \<open>handleSummaryRequest\<close>,
  which passes the two members to \<open>generateSummary\<close> of the client. The fetch calls of
  the submission are those of that run, and none when \<open>onSubmit\<close> is not called.
\<close>

definition submit :: "APIClient \<Rightarrow> InputForm \<Rightarrow> (nat \<Rightarrow> 'a attempt_env) \<Rightarrow> 'a run option" where
  "submit c f env =
     (case handleSubmit f of
        None \<Rightarrow> None
      | Some d \<Rightarrow>
          Some (generateSummary c \<lparr> githubPrUrl = githubPrUrl d, jiraTicketId = jiraTicketId d \<rparr> env))"

definition submit_attempts :: "APIClient \<Rightarrow> InputForm \<Rightarrow> (nat \<Rightarrow> 'a attempt_env) \<Rightarrow> nat" where
  "submit_attempts c f env = (case submit c f env of None \<Rightarrow> 0 | Some r \<Rightarrow> attempts r)"

subsection \<open>Concrete environments\<close>

text \<open>The empty object literal \<open>{}\<close> as a partial configuration, and a bare process environment.\<close>

definition no_overrides :: PartialConfig where
  "no_overrides =
     \<lparr> p_baseURL = None, p_timeout = None, p_retries = None, p_retryDelay = None,
       p_retryBackoff = None, p_enableLogging = None \<rparr>"

definition bare_env :: process_env where
  "bare_env = \<lparr> REACT_APP_API_BASE_URL = None, NODE_ENV = None \<rparr>"

text \<open>An environment in which every attempt meets the same outcome.\<close>

definition every_attempt :: "'a fetch_outcome \<Rightarrow> nat \<Rightarrow> 'a attempt_env" where
  "every_attempt out n = \<lparr> outcome = out, now = ''2025-10-13T00:00:00.000Z'' \<rparr>"

text \<open>An error body of the backend and a successful response, for concrete runs.\<close>

definition sample_error :: APIError where
  "sample_error =
     \<lparr> error = ''NOT_FOUND'', message = ''No such summary'',
       timestamp = ''2025-10-13T00:00:00.000Z'', correlation_id = None, path = None,
       request_method = None, details = None, errors = None \<rparr>"

definition error_response :: "int \<Rightarrow> unit Response" where
  "error_response code =
     \<lparr> status = code, statusText = ''Error'',
       json = Inr \<lparr> as_data = (), as_error = JSON_object sample_error \<rparr> \<rparr>"

definition ok_response :: "unit Response" where
  "ok_response =
     \<lparr> status = 200, statusText = ''OK'',
       json = Inr \<lparr> as_data = (), as_error = JSON_object sample_error \<rparr> \<rparr>"

definition get_options :: RequestInit where
  "get_options = \<lparr> http_method = None, body = None \<rparr>"

text \<open>A gateway's error page, which is not JSON, and a validation failure of the backend.\<close>

definition bad_gateway_response :: "unit Response" where
  "bad_gateway_response =
     \<lparr> status = 502, statusText = ''Bad Gateway'',
       json = Inl (SyntaxError ''Unexpected token < in JSON at position 0'') \<rparr>"

definition validation_response :: "unit Response" where
  "validation_response =
     \<lparr> status = 400, statusText = ''Bad Request'',
       json = Inr \<lparr> as_data = (),
                    as_error = JSON_object (sample_error
                      \<lparr> error := ''VALIDATION_ERROR'', message := ''Invalid request'',
                        errors := Some [FieldError ''github_pr_url'' ''Invalid URL'' ''invalid'' None] \<rparr>) \<rparr> \<rparr>"

text \<open>
  Two top-level calls started one after the other on a new client: the client and the signal
  after the first call has started, and after the second has.
\<close>

definition client_A :: APIClient where
  "client_A = snd (request_begin (new_APIClient bare_env no_overrides))"

definition signal_A :: nat where
  "signal_A = fst (request_begin (new_APIClient bare_env no_overrides))"

definition client_B :: APIClient where
  "client_B = snd (request_begin client_A)"

definition signal_B :: nat where
  "signal_B = fst (request_begin client_A)"

text \<open>
  An error response whose body is the JSON text \<open>null\<close>; a response with status 503 whose
  body is being read when the request is cancelled, so that \<open>response.json()\<close> rejects
  with \<open>AbortError\<close>; and an environment whose first attempt meets one outcome and every
  later attempt another.
\<close>

definition null_body_response :: "int \<Rightarrow> unit Response" where
  "null_body_response code =
     \<lparr> status = code, statusText = ''Error'',
       json = Inr \<lparr> as_data = (), as_error = JSON_null \<rparr> \<rparr>"

definition aborted_body_response :: "unit Response" where
  "aborted_body_response =
     \<lparr> status = 503, statusText = ''Service Unavailable'',
       json = Inl (DOMException ''AbortError'' ''The operation was aborted.'') \<rparr>"

definition first_then :: "'a fetch_outcome \<Rightarrow> 'a fetch_outcome \<Rightarrow> nat \<Rightarrow> 'a attempt_env" where
  "first_then out0 out n =
     \<lparr> outcome = (if n = 0 then out0 else out), now = ''2025-10-13T00:00:00.000Z'' \<rparr>"

text \<open>A process environment in development mode, where the default configuration logs.\<close>

definition development_env :: process_env where
  "development_env = \<lparr> REACT_APP_API_BASE_URL = None, NODE_ENV = Some ''development'' \<rparr>"

section \<open>Properties\<close>

subsection \<open>Auxiliary facts about a run\<close>

declare request.simps [simp del]

lemma fresh_signal_not_aborted:
  "\<not> aborted (snd (request_begin c)) (fst (request_begin c))"
  by (simp add: aborted_def request_begin_def nth_append)

lemma fetch_settles_fresh:
  "fetch_settles (snd (request_begin c)) (fst (request_begin c)) out = out"
  by (simp add: fetch_settles_def fresh_signal_not_aborted)

lemma config_request_begin: "config (snd (request_begin c)) = config c"
  by (simp add: request_begin_def)

lemma catch_block_Retry_iff:
  "catch_block cfg n err = Retry d \<longleftrightarrow>
     (\<exists>e. err = Api e \<and> int n < retries cfg \<and> isRetryableError e \<and> d = backoff_delay cfg n)"
  by (cases err) (auto simp: catch_block_def is_AbortError_def)

lemma attempt_settles_Sleep_iff:
  "attempt_settles (snd (request_begin c)) (fst (request_begin c)) n e = Sleep d \<longleftrightarrow>
     (\<exists>ae. try_block (now e) (outcome e) = Inl (Api ae) \<and> int n < retries (config c)
        \<and> isRetryableError ae \<and> d = backoff_delay (config c) n)"
proof -
  have "attempt_settles (snd (request_begin c)) (fst (request_begin c)) n e = Sleep d \<longleftrightarrow>
      (\<exists>err. try_block (now e) (outcome e) = Inl err \<and> catch_block (config c) n err = Retry d)"
    by (auto simp: attempt_settles_def fetch_settles_fresh config_request_begin
        split: sum.splits catch_action.splits)
  then show ?thesis
    by (auto simp: catch_block_Retry_iff)
qed

lemma request_Sleep:
  assumes "attempt_settles (snd (request_begin c)) (fst (request_begin c)) n (env n) = Sleep d"
  shows "request c endpoint options env n =
     (request (snd (request_begin c)) endpoint options env (n + 1))
       \<lparr> calls := (baseURL (config c) @ endpoint, options, fst (request_begin c))
            # calls (request (snd (request_begin c)) endpoint options env (n + 1)),
         delays := d # delays (request (snd (request_begin c)) endpoint options env (n + 1)) \<rparr>"
  using assms by (subst request.simps) (simp add: Let_def)

lemma request_Return:
  assumes "attempt_settles (snd (request_begin c)) (fst (request_begin c)) n (env n) = Return x"
  shows "request c endpoint options env n =
     \<lparr> result = Inr x, calls = [(baseURL (config c) @ endpoint, options, fst (request_begin c))],
       delays = [], client = snd (request_begin c) \<rparr>"
  using assms by (subst request.simps) (simp add: Let_def)

lemma request_Throws:
  assumes "attempt_settles (snd (request_begin c)) (fst (request_begin c)) n (env n) = Throws x"
  shows "request c endpoint options env n =
     \<lparr> result = Inl x, calls = [(baseURL (config c) @ endpoint, options, fst (request_begin c))],
       delays = [], client = snd (request_begin c) \<rparr>"
  using assms by (subst request.simps) (simp add: Let_def)

lemma attempts_bound_from:
  "1 \<le> attempts (request c endpoint options env n)
   \<and> attempts (request c endpoint options env n) \<le> (nat (retries (config c)) - n) + 1"
proof (induction c endpoint options env n rule: request.induct)
  case (1 c endpoint options env retryCount)
  let ?c1 = "snd (request_begin c)" and ?sig = "fst (request_begin c)"
  show ?case
  proof (cases "attempt_settles ?c1 ?sig retryCount (env retryCount)")
    case (Return x)
    then show ?thesis by (simp add: request_Return attempts_def)
  next
    case (Throws x)
    then show ?thesis by (simp add: request_Throws attempts_def)
  next
    case (Sleep d)
    then have lt: "int retryCount < retries (config c)"
      by (auto simp: attempt_settles_Sleep_iff)
    have ih: "attempts (request ?c1 endpoint options env (retryCount + 1))
        \<le> (nat (retries (config c)) - (retryCount + 1)) + 1"
      using "1.IH" [OF refl refl refl refl Sleep] by (simp add: config_request_begin)
    have "attempts (request c endpoint options env retryCount)
        = Suc (attempts (request ?c1 endpoint options env (retryCount + 1)))"
      by (simp add: request_Sleep [where env = env, OF Sleep] attempts_def)
    with ih lt show ?thesis by simp
  qed
qed

lemma delays_from:
  "delays (request c endpoint options env n)
     = map (backoff_delay (config c)) [n ..< n + attempts (request c endpoint options env n) - 1]"
proof (induction c endpoint options env n rule: request.induct)
  case (1 c endpoint options env retryCount)
  let ?c1 = "snd (request_begin c)" and ?sig = "fst (request_begin c)"
  show ?case
  proof (cases "attempt_settles ?c1 ?sig retryCount (env retryCount)")
    case (Return x)
    then show ?thesis by (simp add: request_Return attempts_def)
  next
    case (Throws x)
    then show ?thesis by (simp add: request_Throws attempts_def)
  next
    case (Sleep d)
    let ?r = "request ?c1 endpoint options env (retryCount + 1)"
    have d: "d = backoff_delay (config c) retryCount"
      using Sleep by (auto simp: attempt_settles_Sleep_iff)
    have ih: "delays ?r = map (backoff_delay (config c)) [retryCount + 1 ..< retryCount + 1 + attempts ?r - 1]"
      using "1.IH" [OF refl refl refl refl Sleep] by (simp add: config_request_begin)
    have pos: "1 \<le> attempts ?r"
      using attempts_bound_from by blast
    have att: "attempts (request c endpoint options env retryCount) = Suc (attempts ?r)"
      by (simp add: request_Sleep [where env = env, OF Sleep] attempts_def)
    have "delays (request c endpoint options env retryCount) = d # delays ?r"
      by (simp add: request_Sleep [where env = env, OF Sleep])
    also have "\<dots> = map (backoff_delay (config c)) (retryCount # [retryCount + 1 ..< retryCount + 1 + attempts ?r - 1])"
      by (simp only: d ih list.map)
    also have "retryCount # [retryCount + 1 ..< retryCount + 1 + attempts ?r - 1]
        = [retryCount ..< retryCount + attempts (request c endpoint options env retryCount) - 1]"
      using pos by (simp add: att upt_conv_Cons)
    finally show ?thesis .
  qed
qed

lemma calls_from:
  "calls (request c endpoint options env n)
     = map (\<lambda>k. (baseURL (config c) @ endpoint, options, length (controllers c) + k))
         [0 ..< attempts (request c endpoint options env n)]"
proof (induction c endpoint options env n rule: request.induct)
  case (1 c endpoint options env retryCount)
  let ?c1 = "snd (request_begin c)" and ?sig = "fst (request_begin c)"
  show ?case
  proof (cases "attempt_settles ?c1 ?sig retryCount (env retryCount)")
    case (Return x)
    then show ?thesis by (simp add: request_Return attempts_def request_begin_def)
  next
    case (Throws x)
    then show ?thesis by (simp add: request_Throws attempts_def request_begin_def)
  next
    case (Sleep d)
    let ?r = "request ?c1 endpoint options env (retryCount + 1)"
    have ih: "calls ?r = map (\<lambda>k. (baseURL (config c) @ endpoint, options, length (controllers c) + 1 + k))
         [0 ..< attempts ?r]"
      using "1.IH" [OF refl refl refl refl Sleep] by (simp add: request_begin_def)
    have att: "attempts (request c endpoint options env retryCount) = Suc (attempts ?r)"
      by (simp add: request_Sleep [where env = env, OF Sleep] attempts_def)
    have "calls (request c endpoint options env retryCount)
        = (baseURL (config c) @ endpoint, options, length (controllers c)) # calls ?r"
      by (simp add: request_Sleep [where env = env, OF Sleep] request_begin_def)
    also have "calls ?r = map (\<lambda>k. (baseURL (config c) @ endpoint, options, length (controllers c) + Suc k))
         [0 ..< attempts ?r]"
      using ih by simp
    finally show ?thesis
      by (simp only: att map_upt_Suc) simp
  qed
qed

lemma request_all_timeouts:
  assumes "\<And>k. outcome (env k) = TimerFired" and "int n \<le> retries (config c)"
  shows "attempts (request c endpoint options env n) = nat (retries (config c)) - n + 1"
  using assms
proof (induction c endpoint options env n rule: request.induct)
  case (1 c endpoint options env retryCount)
  let ?c1 = "snd (request_begin c)" and ?sig = "fst (request_begin c)"
  have tb: "try_block (now (env retryCount)) (outcome (env retryCount))
      = Inl (Api (TimeoutError ''Request timed out''))"
    by (simp add: "1.prems"(1) try_block_def)
  show ?case
  proof (cases "int retryCount < retries (config c)")
    case True
    then have sl: "attempt_settles ?c1 ?sig retryCount (env retryCount)
        = Sleep (backoff_delay (config c) retryCount)"
      by (simp add: attempt_settles_Sleep_iff tb isRetryableError_def)
    have "attempts (request ?c1 endpoint options env (retryCount + 1))
        = nat (retries (config ?c1)) - (retryCount + 1) + 1"
      using "1.IH" [OF refl refl refl refl sl "1.prems"(1)] True
      by (simp add: config_request_begin)
    then show ?thesis
      using True
      by (simp add: request_Sleep [where env = env, OF sl] attempts_def config_request_begin)
  next
    case False
    then have "attempt_settles ?c1 ?sig retryCount (env retryCount)
        = Throws (Api (TimeoutError ''Request timed out''))"
      by (simp add: attempt_settles_def fetch_settles_fresh tb catch_block_def
          is_AbortError_def config_request_begin)
    then show ?thesis
      using False "1.prems"(2) by (simp add: request_Throws attempts_def)
  qed
qed

lemmas run_defs =
  new_APIClient_def bare_env_def no_overrides_def spread_def DEFAULT_CONFIG_def
  every_attempt_def attempts_def attempt_settles_def try_block_def catch_block_def
  fetch_settles_def aborted_def request_begin_def is_AbortError_def isRetryableError_def
  backoff_delay_def get_options_def ok_def createAPIError_def parseErrorResponse_def
  error_response_def ok_response_def sample_error_def cancelled_error_def Let_def

subsection \<open>The attempt budget\<close>

text \<open>
  One fetch is made before the retry count is compared with \<open>retries\<close>, so a run has at
  least one attempt and at most \<open>max(retries, 0) + 1\<close> (\<open>attempts_bound_from\<close> above, with
  \<open>n = 0\<close>). A negative \<open>retries\<close> therefore behaves as 0: one attempt is made.
\<close>

lemma request_negative_retries_one_attempt:
  "attempts (request (new_APIClient bare_env (no_overrides\<lparr> p_retries := Some (- 1) \<rparr>))
       ''/health'' get_options (every_attempt (TimerFired :: unit fetch_outcome)) 0) = 1"
  by (simp add: run_defs request.simps)

text \<open>
  Claim C1. \<open>request\<close> is a total function: its recursion was shown to terminate by the
  measure \<open>retries - retryCount\<close>, since a further call is made only when
  \<open>retryCount < retries\<close> and is made with \<open>retryCount + 1\<close>. For a retry budget
  \<open>retries\<close> (a count of retries, so not negative), one logical call (\<open>retryCount = 0\<close>)
  makes at least one fetch and at most \<open>retries + 1\<close> of them, whatever the attempts settle
  with.
\<close>

theorem request_attempts_bound:
  "0 \<le> retries (config c) \<Longrightarrow>
     1 \<le> attempts (request c endpoint options env 0)
     \<and> int (attempts (request c endpoint options env 0)) \<le> retries (config c) + 1"
  using attempts_bound_from [of c endpoint options env 0] by auto

text \<open>Under the default configuration and a timeout on every attempt the bound is met.\<close>

theorem request_attempts_bound_witness:
  "0 \<le> retries (config (new_APIClient bare_env no_overrides))
   \<and> 1 \<le> attempts (request (new_APIClient bare_env no_overrides) ''/health'' get_options
             (every_attempt (TimerFired :: unit fetch_outcome)) 0)
   \<and> int (attempts (request (new_APIClient bare_env no_overrides) ''/health'' get_options
             (every_attempt (TimerFired :: unit fetch_outcome)) 0))
       \<le> retries (config (new_APIClient bare_env no_overrides)) + 1
   \<and> retries (config (new_APIClient bare_env no_overrides)) + 1 = 4"
proof -
  have nonneg: "0 \<le> retries (config (new_APIClient bare_env no_overrides))"
    by (simp add: run_defs)
  have four: "retries (config (new_APIClient bare_env no_overrides)) + 1 = 4"
    by (simp add: run_defs)
  show ?thesis
    using nonneg four
      request_attempts_bound [OF nonneg, of "''/health''" get_options
        "every_attempt (TimerFired :: unit fetch_outcome)"]
    by simp
qed

subsection \<open>Network errors and timeouts\<close>

text \<open>
  A timeout on every attempt uses the whole budget (\<open>request_all_timeouts\<close> above), and
  with \<open>retryBackoff\<close> set and a positive \<open>retryDelay\<close> the delays of a run grow strictly.
  A transport failure is not retried under any configuration.
\<close>

lemma request_network_error_not_retried:
  assumes "outcome (env n) = FetchRejected (TypeError m)" and "string_includes m ''fetch''"
  shows "attempts (request c endpoint options env n) = 1
    \<and> result (request c endpoint options env n)
        = Inl (Api (NetworkError ''Network error - please check your connection'' m))"
proof -
  have "attempt_settles (snd (request_begin c)) (fst (request_begin c)) n (env n)
      = Throws (Api (NetworkError ''Network error - please check your connection'' m))"
    using assms
    by (simp add: attempt_settles_def fetch_settles_fresh try_block_def catch_block_def
        is_AbortError_def)
  then show ?thesis
    by (simp add: request_Throws [where env = env] attempts_def)
qed

lemma request_delays_strictly_increase:
  assumes "retryBackoff (config c)" and "0 < retryDelay (config c)"
  shows "sorted_wrt (<) (delays (request c endpoint options env n))"
proof -
  have "backoff_delay (config c) i < backoff_delay (config c) j" if "i < j" for i j
    using assms that by (simp add: backoff_delay_def)
  then show ?thesis
    by (simp add: delays_from sorted_wrt_map sorted_wrt_iff_nth_less)
qed

text \<open>
  Claim C2, at a transport failure. The fetch rejects with the \<open>TypeError\<close> of a failed
  fetch on every attempt, under the default configuration (\<open>retries = 3\<close>). The
  \<open>catch\<close> block wraps it in a \<open>NetworkError\<close> and throws at once, before its retry
  logic: the run makes one fetch and sleeps for no delay, where the claim has four attempts
  and \<open>isRetryableError\<close> would accept the error.
\<close>

theorem request_network_error_single_attempt:
  "request (new_APIClient bare_env no_overrides) ''/health'' get_options
       (every_attempt (FetchRejected (TypeError ''Failed to fetch'') :: unit fetch_outcome)) 0
     = \<lparr> result = Inl (Api (NetworkError ''Network error - please check your connection''
                              ''Failed to fetch'')),
         calls = [(''http://localhost:8000/health'', get_options, 0)],
         delays = [],
         client = (new_APIClient bare_env no_overrides)
                    \<lparr> controllers := [False], abortController := Some 0 \<rparr> \<rparr>
   \<and> retries (config (new_APIClient bare_env no_overrides)) = 3"
  by (simp add: run_defs request.simps)

subsection \<open>Retry eligibility of HTTP errors\<close>

text \<open>
  \<open>createAPIError\<close> builds an error from an object body, and from a primitive body unless
  the status is 400; what it throws instead is a \<open>TypeError\<close>, and for a status other than
  400 the one of the \<open>null\<close> body, which the \<open>catch\<close> block throws again unchanged.
\<close>

lemma createAPIError_retryable:
  assumes "createAPIError code errorData = Inr e" and "code \<noteq> 0"
  shows "isRetryableError e = (500 \<le> code \<or> code = 429)"
  using assms
  by (auto simp: isRetryableError_def createAPIError_def split: error_body.splits if_splits)

lemma createAPIError_throws_TypeError:
  assumes "createAPIError code errorData = Inl x"
  shows "\<exists>m. x = TypeError m"
  using assms
  by (auto simp: createAPIError_def in_operator_error_def null_member_error_def
      split: error_body.splits if_splits)

lemma createAPIError_throws_400_or_null:
  assumes "createAPIError code errorData = Inl x"
  shows "code = 400 \<or> x = null_member_error"
  using assms
  by (auto simp: createAPIError_def split: error_body.splits if_splits)

lemma null_member_error_rethrown: "catch_block cfg n null_member_error = Throw null_member_error"
  by (simp add: catch_block_def null_member_error_def is_AbortError_def)

text \<open>
  Claim C3. The status code 0 is not the status of a received HTTP response: the fetch of
  \<open>request\<close> resolves with the response of the server only, and 0 is the code that the
  client gives to its own \<open>NetworkError\<close>, \<open>TimeoutError\<close> and cancellation error. For any
  other status code, every error that \<open>createAPIError\<close> builds is retryable exactly when the
  code is at least 500 or is 429. Accordingly an attempt that ends in a response with a
  status outside 200 to 299, with retry budget left, is followed by a sleep and a further
  attempt exactly when the status is at least 500 or is 429 and an error was built from the
  body. A response with status 404 on the first attempt ends the call, whatever its body:
  one fetch, no delay, and what was built or thrown for that response is thrown.
\<close>

theorem http_error_retry_eligibility:
  "(code \<noteq> 0 \<and> createAPIError code errorData = Inr e \<longrightarrow>
      isRetryableError e = (500 \<le> code \<or> code = 429))
   \<and> (status r \<noteq> 0 \<and> \<not> ok r \<and> int n < retries (config c) \<longrightarrow>
        (\<exists>d. attempt_settles (snd (request_begin c)) (fst (request_begin c)) n
                \<lparr> outcome = Responded r, now = t \<rparr> = Sleep d)
          = ((500 \<le> status r \<or> status r = 429)
             \<and> (\<exists>e'. createAPIError (status r) (parseErrorResponse t r) = Inr e')))
   \<and> (outcome (env 0) = Responded r' \<and> status r' = 404 \<longrightarrow>
        attempts (request c endpoint options env 0) = 1
        \<and> delays (request c endpoint options env 0) = []
        \<and> result (request c endpoint options env 0)
            = Inl (case createAPIError 404 (parseErrorResponse (now (env 0)) r') of
                     Inr e' \<Rightarrow> Api e'
                   | Inl x \<Rightarrow> x))"
proof (intro conjI impI)
  assume "code \<noteq> 0 \<and> createAPIError code errorData = Inr e"
  then show "isRetryableError e = (500 \<le> code \<or> code = 429)"
    using createAPIError_retryable by blast
next
  assume a: "status r \<noteq> 0 \<and> \<not> ok r \<and> int n < retries (config c)"
  let ?built = "createAPIError (status r) (parseErrorResponse t r)"
  show "(\<exists>d. attempt_settles (snd (request_begin c)) (fst (request_begin c)) n
                \<lparr> outcome = Responded r, now = t \<rparr> = Sleep d)
          = ((500 \<le> status r \<or> status r = 429) \<and> (\<exists>e'. ?built = Inr e'))"
  proof (cases ?built)
    case (Inl x)
    then obtain m where "x = TypeError m"
      using createAPIError_throws_TypeError by blast
    with Inl a show ?thesis
      by (simp add: attempt_settles_Sleep_iff try_block_def)
  next
    case (Inr e')
    then have "isRetryableError e' = (500 \<le> status r \<or> status r = 429)"
      using a createAPIError_retryable by blast
    with Inr a show ?thesis
      by (simp add: attempt_settles_Sleep_iff try_block_def)
  qed
next
  assume a: "outcome (env 0) = Responded r' \<and> status r' = 404"
  let ?built = "createAPIError 404 (parseErrorResponse (now (env 0)) r')"
  let ?x = "case ?built of Inr e' \<Rightarrow> Api e' | Inl x \<Rightarrow> x"
  have nok: "\<not> ok r'"
    using a by (simp add: ok_def)
  have "catch_block (config c) 0 ?x = Throw ?x"
  proof (cases ?built)
    case (Inl x)
    then have "x = null_member_error"
      using createAPIError_throws_400_or_null by fastforce
    with Inl show ?thesis
      by (simp add: null_member_error_rethrown)
  next
    case (Inr e')
    then have "\<not> isRetryableError e'"
      using createAPIError_retryable [of 404 _ e'] by simp
    with Inr show ?thesis
      by (simp add: catch_block_def is_AbortError_def)
  qed
  with a nok have th: "attempt_settles (snd (request_begin c)) (fst (request_begin c)) 0 (env 0)
      = Throws ?x"
    by (simp add: attempt_settles_def fetch_settles_fresh try_block_def config_request_begin
        split: sum.splits)
  show "attempts (request c endpoint options env 0) = 1"
    by (simp add: request_Throws [where env = env, OF th] attempts_def)
  show "delays (request c endpoint options env 0) = []"
    by (simp add: request_Throws [where env = env, OF th])
  show "result (request c endpoint options env 0) = Inl ?x"
    by (simp add: request_Throws [where env = env, OF th])
qed

theorem http_error_retry_eligibility_witness:
  "(503::int) \<noteq> 0
   \<and> createAPIError 503 (JSON_object sample_error)
       = Inr (APIClientError ''No such summary'' (Some 503) (Some ''NOT_FOUND'') None None)
   \<and> isRetryableError (APIClientError ''No such summary'' (Some 503) (Some ''NOT_FOUND'') None None)
   \<and> status (error_response 503) \<noteq> 0 \<and> \<not> ok (error_response 503)
   \<and> int 0 < retries (config (new_APIClient bare_env no_overrides))
   \<and> (\<exists>d. attempt_settles (snd (request_begin (new_APIClient bare_env no_overrides)))
             (fst (request_begin (new_APIClient bare_env no_overrides))) 0
             \<lparr> outcome = Responded (error_response 503), now = [] \<rparr> = Sleep d)
   \<and> outcome (every_attempt (Responded (error_response 404)) 0) = Responded (error_response 404)
   \<and> status (error_response 404) = 404
   \<and> attempts (request (new_APIClient bare_env no_overrides) ''/health'' get_options
         (every_attempt (Responded (error_response 404))) 0) = 1
   \<and> delays (request (new_APIClient bare_env no_overrides) ''/health'' get_options
         (every_attempt (Responded (error_response 404))) 0) = []
   \<and> result (request (new_APIClient bare_env no_overrides) ''/health'' get_options
         (every_attempt (Responded (error_response 404))) 0)
       = Inl (Api (APIClientError ''No such summary'' (Some 404) (Some ''NOT_FOUND'') None None))"
proof -
  let ?c = "new_APIClient bare_env no_overrides"
  let ?env = "every_attempt (Responded (error_response 404))"
  have built: "createAPIError 503 (JSON_object sample_error)
       = Inr (APIClientError ''No such summary'' (Some 503) (Some ''NOT_FOUND'') None None)"
    by (simp add: createAPIError_def sample_error_def)
  have built': "createAPIError 404 (parseErrorResponse (now (?env 0)) (error_response 404))
       = Inr (APIClientError ''No such summary'' (Some 404) (Some ''NOT_FOUND'') None None)"
    by (simp add: createAPIError_def parseErrorResponse_def error_response_def sample_error_def)
  have built'': "createAPIError (status (error_response 503)) (parseErrorResponse [] (error_response 503))
       = Inr (APIClientError ''No such summary'' (Some 503) (Some ''NOT_FOUND'') None None)"
    by (simp add: createAPIError_def parseErrorResponse_def error_response_def sample_error_def)
  have h: "status (error_response 503) \<noteq> 0 \<and> \<not> ok (error_response 503)
      \<and> int 0 < retries (config ?c)"
    by (simp add: ok_def error_response_def new_APIClient_def spread_def DEFAULT_CONFIG_def
        no_overrides_def bare_env_def)
  have h': "outcome (?env 0) = Responded (error_response 404) \<and> status (error_response 404) = 404"
    by (simp add: every_attempt_def error_response_def)
  have st: "status (error_response 503) = 503"
    by (simp add: error_response_def)
  note inst = http_error_retry_eligibility [where code = 503 and errorData = "JSON_object sample_error"
      and e = "APIClientError ''No such summary'' (Some 503) (Some ''NOT_FOUND'') None None"
      and r = "error_response 503" and n = 0 and c = ?c
      and t = "[]" and env = ?env
      and r' = "error_response 404" and endpoint = "''/health''" and options = get_options]
  have r1: "isRetryableError (APIClientError ''No such summary'' (Some 503) (Some ''NOT_FOUND'') None None)"
    using inst built by simp
  have r2: "\<exists>d. attempt_settles (snd (request_begin ?c)) (fst (request_begin ?c)) 0
             \<lparr> outcome = Responded (error_response 503), now = [] \<rparr> = Sleep d"
    using inst h built'' by (simp add: st)
  have r3: "attempts (request ?c ''/health'' get_options ?env 0) = 1
      \<and> delays (request ?c ''/health'' get_options ?env 0) = []
      \<and> result (request ?c ''/health'' get_options ?env 0)
         = Inl (Api (APIClientError ''No such summary'' (Some 404) (Some ''NOT_FOUND'') None None))"
    using inst h' built' by simp
  show ?thesis
    using built r1 h r2 h' r3 by simp
qed

subsection \<open>The backoff delay\<close>

text \<open>
  Claim C4. When the attempt with counter \<open>n\<close> is retried, the delay slept before the next
  attempt is \<open>retryDelay * 2^n\<close> if \<open>retryBackoff\<close> is set and \<open>retryDelay\<close> otherwise, and
  the rest of the run is the run of \<open>request\<close> with counter \<open>n + 1\<close>. Hence the delays of a
  logical call are that expression at the counters 0, 1, ... of all its attempts but the last.
\<close>

theorem request_backoff_delays:
  "(attempt_settles (snd (request_begin c)) (fst (request_begin c)) n (env n) = Sleep d \<longrightarrow>
      d = (if retryBackoff (config c) then retryDelay (config c) * 2 ^ n else retryDelay (config c))
      \<and> request c endpoint options env n =
          (request (snd (request_begin c)) endpoint options env (n + 1))
            \<lparr> calls := (baseURL (config c) @ endpoint, options, fst (request_begin c))
                 # calls (request (snd (request_begin c)) endpoint options env (n + 1)),
              delays := d # delays (request (snd (request_begin c)) endpoint options env (n + 1)) \<rparr>)
   \<and> delays (request c endpoint options env 0) =
       map (\<lambda>attempt. if retryBackoff (config c) then retryDelay (config c) * 2 ^ attempt
                       else retryDelay (config c))
         [0 ..< attempts (request c endpoint options env 0) - 1]"
proof (intro conjI impI)
  assume sl: "attempt_settles (snd (request_begin c)) (fst (request_begin c)) n (env n) = Sleep d"
  then have "d = backoff_delay (config c) n"
    by (auto simp: attempt_settles_Sleep_iff)
  then show "d = (if retryBackoff (config c) then retryDelay (config c) * 2 ^ n else retryDelay (config c))"
    by (simp add: backoff_delay_def)
  show "request c endpoint options env n =
          (request (snd (request_begin c)) endpoint options env (n + 1))
            \<lparr> calls := (baseURL (config c) @ endpoint, options, fst (request_begin c))
                 # calls (request (snd (request_begin c)) endpoint options env (n + 1)),
              delays := d # delays (request (snd (request_begin c)) endpoint options env (n + 1)) \<rparr>"
    by (rule request_Sleep [where env = env, OF sl])
next
  have "backoff_delay (config c) = (\<lambda>attempt. if retryBackoff (config c) then retryDelay (config c) * 2 ^ attempt
                       else retryDelay (config c))"
    by (simp add: backoff_delay_def fun_eq_iff)
  then show "delays (request c endpoint options env 0) =
       map (\<lambda>attempt. if retryBackoff (config c) then retryDelay (config c) * 2 ^ attempt
                       else retryDelay (config c))
         [0 ..< attempts (request c endpoint options env 0) - 1]"
    using delays_from [of c endpoint options env 0] by simp
qed

theorem request_backoff_delays_witness:
  "attempt_settles (snd (request_begin (new_APIClient bare_env no_overrides)))
       (fst (request_begin (new_APIClient bare_env no_overrides))) 0
       (every_attempt (TimerFired :: unit fetch_outcome) 0) = Sleep 1000
   \<and> delays (request (new_APIClient bare_env no_overrides) ''/health'' get_options
         (every_attempt (TimerFired :: unit fetch_outcome)) 0) = [1000, 2000, 4000]
   \<and> delays (request (new_APIClient bare_env (no_overrides\<lparr> p_retryBackoff := Some False \<rparr>))
         ''/health'' get_options (every_attempt (TimerFired :: unit fetch_outcome)) 0)
       = [1000, 1000, 1000]"
proof -
  let ?c = "new_APIClient bare_env no_overrides"
  let ?c' = "new_APIClient bare_env (no_overrides\<lparr> p_retryBackoff := Some False \<rparr>)"
  let ?env = "every_attempt (TimerFired :: unit fetch_outcome)"
  have sl: "attempt_settles (snd (request_begin ?c)) (fst (request_begin ?c)) 0 (?env 0) = Sleep 1000"
    by (simp add: run_defs)
  have a: "attempts (request ?c ''/health'' get_options ?env 0) = 4"
    using request_all_timeouts [of ?env 0 ?c "''/health''" get_options]
    by (simp add: run_defs)
  have a': "attempts (request ?c' ''/health'' get_options ?env 0) = 4"
    using request_all_timeouts [of ?env 0 ?c' "''/health''" get_options]
    by (simp add: run_defs)
  have up: "[0 ..< 3] = [0, 1, 2::nat]"
    by (simp add: upt_rec)
  have cfg: "retryBackoff (config ?c)" "retryDelay (config ?c) = 1000"
    "\<not> retryBackoff (config ?c')" "retryDelay (config ?c') = 1000"
    by (simp_all add: run_defs)
  have d: "delays (request ?c ''/health'' get_options ?env 0) = [1000, 2000, 4000]"
    using request_backoff_delays [where c = ?c and env = ?env and n = 0 and d = 1000
        and endpoint = "''/health''" and options = get_options]
    by (simp add: a up cfg)
  have d': "delays (request ?c' ''/health'' get_options ?env 0) = [1000, 1000, 1000]"
    using request_backoff_delays [where c = ?c' and env = ?env and n = 0 and d = 1000
        and endpoint = "''/health''" and options = get_options]
    by (simp add: a' up cfg)
  show ?thesis
    using sl d d' by simp
qed

subsection \<open>Cancellation\<close>

text \<open>
  A fetch that rejects with \<open>AbortError\<close> ends the call at once with the error
  \<open>Request was cancelled\<close>, whatever the retry count and the budget, and so does an attempt
  whose signal is aborted before its fetch settles.
\<close>

lemma request_abort_error_terminal:
  assumes "outcome (env n) = FetchRejected (DOMException ''AbortError'' m)"
  shows "request c endpoint options env n =
        \<lparr> result = Inl (Api cancelled_error),
          calls = [(baseURL (config c) @ endpoint, options, fst (request_begin c))],
          delays = [],
          client = snd (request_begin c) \<rparr>"
proof -
  have "attempt_settles (snd (request_begin c)) (fst (request_begin c)) n (env n)
      = Throws (Api cancelled_error)"
    by (simp add: attempt_settles_def fetch_settles_fresh assms try_block_def catch_block_def
        is_AbortError_def)
  then show ?thesis
    by (rule request_Throws [where env = env])
qed

lemma aborted_signal_terminal:
  assumes "aborted c signal"
  shows "attempt_settles c signal n e = Throws (Api cancelled_error)"
  using assms
  by (simp add: attempt_settles_def fetch_settles_def try_block_def catch_block_def
      is_AbortError_def)

lemma number_toString_503: "number_toString 503 = ''503''"
  by code_simp

text \<open>
  Claim C5, at an abort that arrives while the body of an error response is read. The
  server answers the first attempt with status 503 and the request is cancelled during
  \<open>response.json()\<close>, which rejects with \<open>AbortError\<close>. The \<open>catch\<close> of
  \<open>parseErrorResponse\<close> takes any rejection for a body that is not JSON, so the attempt
  throws the error \<open>HTTP 503\<close> with the fallback body, which is retryable: under the default
  configuration the call sleeps 1000 and makes a second fetch, here a successful one. On a
  response with status 200 the same rejection reaches the \<open>catch\<close> block of \<open>request\<close>
  and ends the call with the cancellation error after one fetch.
\<close>

theorem request_abort_during_error_body_retried:
  "try_block ''2025-10-13T00:00:00.000Z'' (Responded aborted_body_response)
     = Inl (Api (APIClientError ''HTTP 503 - Service Unavailable'' (Some 503)
                   (Some ''HTTP Error'') None None))
   \<and> attempts (request (new_APIClient bare_env no_overrides) ''/health'' get_options
         (first_then (Responded aborted_body_response) (Responded ok_response)) 0) = 2
   \<and> delays (request (new_APIClient bare_env no_overrides) ''/health'' get_options
         (first_then (Responded aborted_body_response) (Responded ok_response)) 0) = [1000]
   \<and> result (request (new_APIClient bare_env no_overrides) ''/health'' get_options
         (first_then (Responded aborted_body_response) (Responded ok_response)) 0) = Inr ()
   \<and> request (new_APIClient bare_env no_overrides) ''/health'' get_options
         (every_attempt (Responded (aborted_body_response\<lparr> status := 200 \<rparr>))) 0
       = \<lparr> result = Inl (Api cancelled_error),
           calls = [(''http://localhost:8000/health'', get_options, 0)],
           delays = [],
           client = (new_APIClient bare_env no_overrides)
                      \<lparr> controllers := [False], abortController := Some 0 \<rparr> \<rparr>"
  by (simp add: run_defs request.simps first_then_def aborted_body_response_def
      number_toString_503)

text \<open>
  After a run the client holds the controller of the last attempt of that run: every
  attempt, a retry included, stores a new controller in the client.
\<close>

lemma client_after_run:
  "abortController (client (request c endpoint options env n))
     = Some (length (controllers c) + attempts (request c endpoint options env n) - 1)
   \<and> controllers (client (request c endpoint options env n))
     = controllers c @ replicate (attempts (request c endpoint options env n)) False
   \<and> config (client (request c endpoint options env n)) = config c"
proof (induction c endpoint options env n rule: request.induct)
  case (1 c endpoint options env retryCount)
  let ?c1 = "snd (request_begin c)" and ?sig = "fst (request_begin c)"
  show ?case
  proof (cases "attempt_settles ?c1 ?sig retryCount (env retryCount)")
    case (Return x)
    then show ?thesis by (simp add: request_Return attempts_def request_begin_def)
  next
    case (Throws x)
    then show ?thesis by (simp add: request_Throws attempts_def request_begin_def)
  next
    case (Sleep d)
    let ?r = "request ?c1 endpoint options env (retryCount + 1)"
    have ih: "abortController (client ?r) = Some (length (controllers ?c1) + attempts ?r - 1)"
      "controllers (client ?r) = controllers ?c1 @ replicate (attempts ?r) False"
      "config (client ?r) = config ?c1"
      using "1.IH" [OF refl refl refl refl Sleep] by simp_all
    have pos: "1 \<le> attempts ?r"
      using attempts_bound_from by blast
    have att: "attempts (request c endpoint options env retryCount) = Suc (attempts ?r)"
      by (simp add: request_Sleep [where env = env, OF Sleep] attempts_def)
    have cl: "client (request c endpoint options env retryCount) = client ?r"
      by (simp add: request_Sleep [where env = env, OF Sleep])
    have c1: "controllers ?c1 = controllers c @ [False]" "config ?c1 = config c"
      by (simp_all add: request_begin_def)
    show ?thesis
      using pos ih by (simp add: cl att c1 replicate_app_Cons_same)
  qed
qed

text \<open>
  Claim C6, as the code has it. \<open>cancelRequests\<close> changes nothing on a new client, or
  whenever the client holds no controller. Every attempt of every call stores its own new
  controller in the one slot of the client; \<open>cancelRequests\<close> aborts the controller in the
  slot, which is that of the attempt started last, empties the slot, and leaves every other
  controller and the configuration as they were. An attempt whose signal is aborted before
  its fetch settles ends in the cancellation error.
\<close>

theorem cancelRequests_single_slot:
  "cancelRequests (new_APIClient penv p) = new_APIClient penv p
   \<and> (abortController c = None \<longrightarrow> cancelRequests c = c)
   \<and> abortController (snd (request_begin c)) = Some (fst (request_begin c))
   \<and> abortController (client (request c endpoint options env k))
       = Some (length (controllers c) + attempts (request c endpoint options env k) - 1)
   \<and> aborted (cancelRequests (snd (request_begin c))) (fst (request_begin c))
   \<and> (other \<noteq> fst (request_begin c) \<longrightarrow>
        aborted (cancelRequests (snd (request_begin c))) other
          = aborted (snd (request_begin c)) other)
   \<and> abortController (cancelRequests c) = None
   \<and> config (cancelRequests c) = config c
   \<and> (aborted c' signal \<longrightarrow> attempt_settles c' signal n e = Throws (Api cancelled_error))"
proof (intro conjI impI)
  show "cancelRequests (new_APIClient penv p) = new_APIClient penv p"
    by (simp add: cancelRequests_def new_APIClient_def)
  show "cancelRequests c = c" if "abortController c = None"
    using that by (simp add: cancelRequests_def)
  show "abortController (snd (request_begin c)) = Some (fst (request_begin c))"
    by (simp add: request_begin_def)
  show "abortController (client (request c endpoint options env k))
       = Some (length (controllers c) + attempts (request c endpoint options env k) - 1)"
    using client_after_run by blast
  show "aborted (cancelRequests (snd (request_begin c))) (fst (request_begin c))"
    by (simp add: cancelRequests_def request_begin_def aborted_def)
  show "aborted (cancelRequests (snd (request_begin c))) other
          = aborted (snd (request_begin c)) other" if "other \<noteq> fst (request_begin c)"
    using that by (auto simp: cancelRequests_def request_begin_def aborted_def nth_append)
  show "abortController (cancelRequests c) = None"
    by (simp add: cancelRequests_def split: option.splits)
  show "config (cancelRequests c) = config c"
    by (simp add: cancelRequests_def split: option.splits)
  show "attempt_settles c' signal n e = Throws (Api cancelled_error)" if "aborted c' signal"
    using that by (rule aborted_signal_terminal)
qed

theorem cancelRequests_single_slot_witness:
  "abortController (new_APIClient bare_env no_overrides) = None
   \<and> cancelRequests (new_APIClient bare_env no_overrides) = new_APIClient bare_env no_overrides
   \<and> signal_A \<noteq> fst (request_begin client_A)
   \<and> aborted (cancelRequests client_B) signal_A = aborted client_B signal_A
   \<and> aborted (cancelRequests client_B) signal_B
   \<and> attempt_settles (cancelRequests client_B) signal_B 0
        (every_attempt (Responded ok_response) 0) = Throws (Api cancelled_error)"
proof -
  have none: "abortController (new_APIClient bare_env no_overrides) = None"
    by (simp add: new_APIClient_def)
  have ne: "signal_A \<noteq> fst (request_begin client_A)"
    by (simp add: signal_A_def client_A_def request_begin_def new_APIClient_def)
  note inst = cancelRequests_single_slot [where c = client_A and other = signal_A
      and c' = "cancelRequests client_B" and signal = signal_B and n = 0
      and e = "every_attempt (Responded ok_response) 0"
      and penv = bare_env and p = no_overrides and endpoint = "''/health''"
      and options = get_options and env = "every_attempt (Responded ok_response)" and k = 0]
  have ab: "aborted (cancelRequests client_B) signal_B"
    using inst by (simp add: client_B_def signal_B_def)
  have same: "aborted (cancelRequests client_B) signal_A = aborted client_B signal_A"
    using inst ne by (simp add: client_B_def)
  have thr: "attempt_settles (cancelRequests client_B) signal_B 0
        (every_attempt (Responded ok_response) 0) = Throws (Api cancelled_error)"
    using inst ab by blast
  have noop: "cancelRequests (new_APIClient bare_env no_overrides) = new_APIClient bare_env no_overrides"
    using none
      cancelRequests_single_slot [where c = "new_APIClient bare_env no_overrides" and other = signal_A
        and c' = "cancelRequests client_B" and signal = signal_B and n = 0
        and e = "every_attempt (Responded ok_response) 0"
        and penv = development_env and p = no_overrides and endpoint = "''/health''"
        and options = get_options and env = "every_attempt (Responded ok_response)" and k = 0]
    by blast
  show ?thesis
    using none noop ne same ab thr by blast
qed

text \<open>
  Which call is cancelled depends on the attempt started last. When the earlier call starts
  a retry after the later call has started, \<open>cancelRequests\<close> aborts that retry, and the
  later call returns its data.
\<close>

lemma cancel_after_retry_of_earlier_call:
  "abortController (snd (request_begin client_B)) = Some 2
   \<and> attempt_settles (cancelRequests (snd (request_begin client_B))) signal_B 0
        (every_attempt (Responded ok_response) 0) = Return ()
   \<and> attempt_settles (cancelRequests (snd (request_begin client_B))) 2 1
        (every_attempt (Responded ok_response) 1) = Throws (Api cancelled_error)"
  by (simp add: client_B_def signal_B_def client_A_def cancelRequests_def ok_response_def run_defs)

text \<open>
  As stated, with the new call unaffected, the claim fails: two calls are started on a new
  client and the second receives a response with status 200. Its attempt returns the data;
  after \<open>cancelRequests\<close> it throws the cancellation error instead.
\<close>

theorem cancel_after_new_call_changes_result:
  "attempt_settles (cancelRequests client_B) signal_B 0 (every_attempt (Responded ok_response) 0)
     = Throws (Api cancelled_error)
   \<and> attempt_settles client_B signal_B 0 (every_attempt (Responded ok_response) 0) = Return ()"
  by (simp add: client_B_def signal_B_def client_A_def cancelRequests_def ok_response_def run_defs)

subsection \<open>Classification of error responses\<close>

text \<open>
  For a response whose status is outside 200 to 299 and whose body is a JSON object, or is
  not JSON, so that the body with \<open>error\<close>, \<open>message\<close> and \<open>timestamp\<close> only is made from
  the status line, the attempt throws a \<open>ValidationAPIError\<close> exactly when the status is 400
  and the body has the member \<open>errors\<close>, and otherwise an \<open>APIClientError\<close> with the status
  as its status code.
\<close>

lemma parse_failure_fallback:
  assumes "json r = Inl x"
  shows "parseErrorResponse t r =
     JSON_object
       \<lparr> error = ''HTTP Error'',
         message = ''HTTP '' @ number_toString (status r) @ '' - '' @ statusText r,
         timestamp = t,
         correlation_id = None, path = None, request_method = None, details = None,
         errors = None \<rparr>"
  using assms by (simp add: parseErrorResponse_def)

lemma error_response_classification_object:
  assumes "\<not> ok r" and "parseErrorResponse t r = JSON_object errorData"
  shows "try_block t (Responded r) =
           Inl (Api (if status r = 400 \<and> errors errorData \<noteq> None
                     then ValidationAPIError (message errorData) (the (errors errorData))
                            (correlation_id errorData)
                     else APIClientError (message errorData) (Some (status r))
                            (Some (error errorData)) (correlation_id errorData)
                            (details errorData)))"
  using assms by (simp add: try_block_def createAPIError_def)

lemma number_toString_502: "number_toString 502 = ''502''"
  by code_simp

lemma error_response_examples:
  "try_block ''2025-10-13T00:00:00.000Z'' (Responded bad_gateway_response)
       = Inl (Api (APIClientError ''HTTP 502 - Bad Gateway'' (Some 502) (Some ''HTTP Error'') None None))
   \<and> try_block ''2025-10-13T00:00:00.000Z'' (Responded validation_response)
       = Inl (Api (ValidationAPIError ''Invalid request''
                     [FieldError ''github_pr_url'' ''Invalid URL'' ''invalid'' None] None))"
  by (simp add: try_block_def ok_def createAPIError_def parseErrorResponse_def
      bad_gateway_response_def validation_response_def sample_error_def number_toString_502)

text \<open>
  Claim C7, at a body that is JSON but not an object. The server answers with status 500
  and the body \<open>null\<close>. \<open>parseErrorResponse\<close> returns \<open>null\<close>, and \<open>createAPIError\<close>
  throws a \<open>TypeError\<close> when it reads the member \<open>message\<close> of it; the \<open>catch\<close> block throws
  it again, so the call ends after one fetch with an error that is neither a
  \<open>ValidationAPIError\<close> nor an \<open>APIClientError\<close> and carries no status. With status 400 the
  operator \<open>in\<close> throws on the same body.
\<close>

theorem error_response_null_body_unclassified:
  "\<not> ok (null_body_response 500)
   \<and> parseErrorResponse ''2025-10-13T00:00:00.000Z'' (null_body_response 500) = JSON_null
   \<and> try_block ''2025-10-13T00:00:00.000Z'' (Responded (null_body_response 500))
       = Inl null_member_error
   \<and> request (new_APIClient bare_env no_overrides) ''/health'' get_options
         (every_attempt (Responded (null_body_response 500))) 0
       = \<lparr> result = Inl null_member_error,
           calls = [(''http://localhost:8000/health'', get_options, 0)],
           delays = [],
           client = (new_APIClient bare_env no_overrides)
                      \<lparr> controllers := [False], abortController := Some 0 \<rparr> \<rparr>
   \<and> try_block ''2025-10-13T00:00:00.000Z'' (Responded (null_body_response 400))
       = Inl (in_operator_error ''null'')"
  by (simp add: run_defs request.simps null_body_response_def null_member_error_def
      in_operator_error_def)

subsection \<open>Validation in the input form\<close>

lemma invalid_ticket_no_match: "\<not> regex_test JIRA_TICKET_PATTERN ''invalid ticket!''"
  by code_simp

lemma trim_invalid_ticket: "trim ''invalid ticket!'' = ''invalid ticket!''"
  by code_simp

text \<open>
  Claim C8. The ticket id \<open>invalid ticket!\<close> does not match the ticket pattern (one to ten
  letters, a hyphen, digits), so \<open>validateField\<close> reports an error for it. Whatever the URL
  field and the flags of the form, \<open>handleSubmit\<close> then returns without calling
  \<open>onSubmit\<close>: no run of \<open>generateSummary\<close> is started and no fetch is made.
\<close>

theorem invalid_ticket_blocks_submission:
  "\<not> regex_test JIRA_TICKET_PATTERN (trim ''invalid ticket!'')
   \<and> validateField JiraTicketId ''invalid ticket!''
       = Some ''Please enter a valid Jira ticket ID (e.g., PROJ-123)''
   \<and> handleSubmit \<lparr> formData = \<lparr> githubPrUrl = url, jiraTicketId = Some ''invalid ticket!'' \<rparr>,
                      isSubmitting = s, loading = l, disabled = d \<rparr> = None
   \<and> submit c \<lparr> formData = \<lparr> githubPrUrl = url, jiraTicketId = Some ''invalid ticket!'' \<rparr>,
                  isSubmitting = s, loading = l, disabled = d \<rparr> env = None
   \<and> submit_attempts c \<lparr> formData = \<lparr> githubPrUrl = url, jiraTicketId = Some ''invalid ticket!'' \<rparr>,
                  isSubmitting = s, loading = l, disabled = d \<rparr> env = 0"
proof -
  have v: "validateField JiraTicketId ''invalid ticket!''
       = Some ''Please enter a valid Jira ticket ID (e.g., PROJ-123)''"
    by (simp add: trim_invalid_ticket invalid_ticket_no_match)
  then have h: "handleSubmit \<lparr> formData = \<lparr> githubPrUrl = url, jiraTicketId = Some ''invalid ticket!'' \<rparr>,
                      isSubmitting = s, loading = l, disabled = d \<rparr> = None"
    by (simp add: handleSubmit_def validateForm_def error_keys_def del: validateField.simps)
  show ?thesis
    using v h by (simp add: trim_invalid_ticket invalid_ticket_no_match submit_def submit_attempts_def
        del: validateField.simps)
qed

text \<open>A well-formed form, by contrast, is submitted, and the fetch is made.\<close>

lemma valid_submission_is_sent:
  "submit_attempts (new_APIClient bare_env no_overrides)
     \<lparr> formData = \<lparr> githubPrUrl = ''https://github.com/acme/widgets/pull/42'', jiraTicketId = Some ''PROJ-7'' \<rparr>,
       isSubmitting = False, loading = False, disabled = False \<rparr>
     (every_attempt (Responded ok_response)) = 1"
  by code_simp

subsection \<open>Configuration updates\<close>

text \<open>
  After \<open>updateConfig\<close> with a partial configuration, each member of the configuration is
  the value the partial names for it, or its previous value when the partial does not name
  it; the rest of the client is unchanged. A call made afterwards makes at least one fetch,
  to the merged base URL; its attempts are bounded by the merged \<open>retries\<close> and its delays
  come from the merged \<open>retryDelay\<close> and \<open>retryBackoff\<close>. The console lines of its attempts
  follow the default configuration alone.
\<close>

lemma updateConfig_merges:
  "baseURL (config (updateConfig p c)) = (case p_baseURL p of Some v \<Rightarrow> v | None \<Rightarrow> baseURL (config c))
   \<and> timeout (config (updateConfig p c)) = (case p_timeout p of Some v \<Rightarrow> v | None \<Rightarrow> timeout (config c))
   \<and> retries (config (updateConfig p c)) = (case p_retries p of Some v \<Rightarrow> v | None \<Rightarrow> retries (config c))
   \<and> retryDelay (config (updateConfig p c))
       = (case p_retryDelay p of Some v \<Rightarrow> v | None \<Rightarrow> retryDelay (config c))
   \<and> retryBackoff (config (updateConfig p c))
       = (case p_retryBackoff p of Some v \<Rightarrow> v | None \<Rightarrow> retryBackoff (config c))
   \<and> enableLogging (config (updateConfig p c))
       = (case p_enableLogging p of Some v \<Rightarrow> v | None \<Rightarrow> enableLogging (config c))
   \<and> abortController (updateConfig p c) = abortController c
   \<and> controllers (updateConfig p c) = controllers c
   \<and> 1 \<le> attempts (request (updateConfig p c) endpoint options env 0)
   \<and> map fst (calls (request (updateConfig p c) endpoint options env 0))
       = replicate (attempts (request (updateConfig p c) endpoint options env 0))
           ((case p_baseURL p of Some v \<Rightarrow> v | None \<Rightarrow> baseURL (config c)) @ endpoint)
   \<and> int (attempts (request (updateConfig p c) endpoint options env 0))
       \<le> max 0 (case p_retries p of Some v \<Rightarrow> v | None \<Rightarrow> retries (config c)) + 1
   \<and> delays (request (updateConfig p c) endpoint options env 0)
       = map (\<lambda>attempt.
               if (case p_retryBackoff p of Some v \<Rightarrow> v | None \<Rightarrow> retryBackoff (config c))
               then (case p_retryDelay p of Some v \<Rightarrow> v | None \<Rightarrow> retryDelay (config c)) * 2 ^ attempt
               else (case p_retryDelay p of Some v \<Rightarrow> v | None \<Rightarrow> retryDelay (config c)))
           [0 ..< attempts (request (updateConfig p c) endpoint options env 0) - 1]"
proof -
  let ?c = "updateConfig p c"
  let ?r = "request ?c endpoint options env 0"
  have f: "baseURL (config ?c) = (case p_baseURL p of Some v \<Rightarrow> v | None \<Rightarrow> baseURL (config c))"
    "timeout (config ?c) = (case p_timeout p of Some v \<Rightarrow> v | None \<Rightarrow> timeout (config c))"
    "retries (config ?c) = (case p_retries p of Some v \<Rightarrow> v | None \<Rightarrow> retries (config c))"
    "retryDelay (config ?c) = (case p_retryDelay p of Some v \<Rightarrow> v | None \<Rightarrow> retryDelay (config c))"
    "retryBackoff (config ?c) = (case p_retryBackoff p of Some v \<Rightarrow> v | None \<Rightarrow> retryBackoff (config c))"
    "enableLogging (config ?c) = (case p_enableLogging p of Some v \<Rightarrow> v | None \<Rightarrow> enableLogging (config c))"
    "abortController ?c = abortController c"
    "controllers ?c = controllers c"
    by (simp_all add: updateConfig_def spread_def)
  have pos: "1 \<le> attempts ?r"
    using attempts_bound_from [of ?c endpoint options env 0] by blast
  have urls: "map fst (calls ?r) = replicate (attempts ?r) (baseURL (config ?c) @ endpoint)"
    by (simp add: calls_from [of ?c endpoint options env 0] o_def map_replicate_const)
  have bound: "int (attempts ?r) \<le> max 0 (retries (config ?c)) + 1"
    using attempts_bound_from [of ?c endpoint options env 0] by auto
  have del: "delays ?r = map (\<lambda>attempt. if retryBackoff (config ?c) then retryDelay (config ?c) * 2 ^ attempt
        else retryDelay (config ?c)) [0 ..< attempts ?r - 1]"
    using delays_from [of ?c endpoint options env 0] by (simp add: backoff_delay_def [abs_def])
  show ?thesis
    using pos urls bound del unfolding f by blast
qed

lemma request_log_follows_default:
  "request_log env endpoint options r =
     (if enableLogging (DEFAULT_CONFIG env)
      then replicate (attempts r) (''[APIClient] '' @ method_or_GET options @ '' '' @ endpoint)
      else [])"
  by (induction "calls r" arbitrary: r)
     (simp_all add: request_log_def attempt_log_def log_def attempts_def map_replicate_const)

text \<open>
  Claim C9, at the member \<open>enableLogging\<close>. Outside development mode the default
  configuration does not log. \<open>updateConfig\<close> with \<open>enableLogging\<close> set stores the value in
  the configuration of the client, but a call made afterwards writes no console line:
  \<open>log\<close> tests \<open>DEFAULT_CONFIG.enableLogging\<close>, where every other member is read from the
  configuration of the client. In development mode, likewise, a client whose
  \<open>enableLogging\<close> was set to false still logs.
\<close>

theorem updateConfig_enableLogging_ignored:
  "enableLogging (config (updateConfig (no_overrides\<lparr> p_enableLogging := Some True \<rparr>)
                            (new_APIClient bare_env no_overrides)))
   \<and> attempts (request (updateConfig (no_overrides\<lparr> p_enableLogging := Some True \<rparr>)
                          (new_APIClient bare_env no_overrides))
                 ''/health'' get_options (every_attempt (Responded ok_response)) 0) = 1
   \<and> request_log bare_env ''/health'' get_options
        (request (updateConfig (no_overrides\<lparr> p_enableLogging := Some True \<rparr>)
                   (new_APIClient bare_env no_overrides))
           ''/health'' get_options (every_attempt (Responded ok_response)) 0) = []
   \<and> \<not> enableLogging (config (updateConfig (no_overrides\<lparr> p_enableLogging := Some False \<rparr>)
                               (new_APIClient development_env no_overrides)))
   \<and> request_log development_env ''/health'' get_options
        (request (updateConfig (no_overrides\<lparr> p_enableLogging := Some False \<rparr>)
                   (new_APIClient development_env no_overrides))
           ''/health'' get_options (every_attempt (Responded ok_response)) 0)
       = [''[APIClient] GET /health'']"
  by (simp add: run_defs request.simps updateConfig_def development_env_def request_log_def
      attempt_log_def log_def method_or_GET_def)

subsection \<open>The wire body of a summary request\<close>




end
